theory Spec2Isabelle
  imports Main "HOL-Library.Sublist"
begin

section \<open>JavaScript strings\<close>

text \<open>
  A string is the list of the bytes of its UTF-8 encoding, so every ASCII text is the list
  of its characters. The string methods the program calls are written out below:
  \<^verbatim>\<open>toLowerCase\<close> (the lower-case mapping of Unicode, which does not depend on the
  locale: the mapping of each character, the two characters that U+0130 becomes, and the
  final form of the small sigma; bytes that are no UTF-8 are kept), \<^verbatim>\<open>includes\<close>,
  \<^verbatim>\<open>trim\<close> (ASCII and Unicode white space and line terminators, in UTF-8), the
  operator \<^verbatim>\<open>||\<close> on a string that may be undefined, a template literal's
  rendering of such a string, and \<^verbatim>\<open>encodeURIComponent\<close>.
\<close>

definition utf8_length :: "string \<Rightarrow> nat" where
  \<comment> \<open>The number of bytes of the character that a non-empty string starts with.\<close>
  "utf8_length s =
     (case s of
        [] \<Rightarrow> 0
      | a # t \<Rightarrow>
          (let n = (of_char a :: nat);
               k = (if 0xC2 \<le> n \<and> n < 0xE0 then 2
                    else if 0xE0 \<le> n \<and> n < 0xF0 then 3
                    else if 0xF0 \<le> n \<and> n < 0xF5 then 4 else 1)
           in if k - 1 \<le> length t
                 \<and> list_all (\<lambda>b. 0x80 \<le> (of_char b :: nat) \<and> (of_char b :: nat) < 0xC0)
                       (take (k - 1) t)
              then k else 1))"

function utf8_chars :: "string \<Rightarrow> string list" where
  "utf8_chars s =
     (if s = [] then [] else take (utf8_length s) s # utf8_chars (drop (utf8_length s) s))"
  by pat_completeness auto
termination
  by (relation "measure length") (auto simp: utf8_length_def Let_def split: list.splits)

declare utf8_chars.simps [simp del]

definition utf8_decode :: "string \<Rightarrow> nat" where
  "utf8_decode bs =
     (case map of_char bs of
        [a] \<Rightarrow> a
      | [a, b] \<Rightarrow> (a - 0xC0) * 0x40 + (b - 0x80)
      | [a, b, c] \<Rightarrow> (a - 0xE0) * 0x1000 + (b - 0x80) * 0x40 + (c - 0x80)
      | [a, b, c, d] \<Rightarrow>
          (a - 0xF0) * 0x40000 + (b - 0x80) * 0x1000 + (c - 0x80) * 0x40 + (d - 0x80)
      | _ \<Rightarrow> 0)"

definition utf8_encode :: "nat \<Rightarrow> string" where
  "utf8_encode cp =
     map char_of
       (if cp < 0x80 then [cp]
        else if cp < 0x800 then [0xC0 + cp div 0x40, 0x80 + cp mod 0x40]
        else if cp < 0x10000
          then [0xE0 + cp div 0x1000, 0x80 + cp div 0x40 mod 0x40, 0x80 + cp mod 0x40]
        else [0xF0 + cp div 0x40000, 0x80 + cp div 0x1000 mod 0x40,
              0x80 + cp div 0x40 mod 0x40, 0x80 + cp mod 0x40])"

text \<open>
  The lower-case mapping of Unicode 14: the code points from the first to the last of an
  entry, in steps of its third component, are moved by its fourth.
\<close>

definition lower_ranges :: "(nat \<times> nat \<times> nat \<times> int) list" where
  "lower_ranges =
     [(0x41, 0x5A, 1, 32), (0xC0, 0xD6, 1, 32), (0xD8, 0xDE, 1, 32), (0x100, 0x12E, 2, 1),
      (0x132, 0x136, 2, 1), (0x139, 0x147, 2, 1), (0x14A, 0x176, 2, 1),
      (0x178, 0x178, 1, -121), (0x179, 0x17D, 2, 1), (0x181, 0x181, 1, 210),
      (0x182, 0x184, 2, 1), (0x186, 0x186, 1, 206), (0x187, 0x187, 1, 1),
      (0x189, 0x18A, 1, 205), (0x18B, 0x18B, 1, 1), (0x18E, 0x18E, 1, 79),
      (0x18F, 0x18F, 1, 202), (0x190, 0x190, 1, 203), (0x191, 0x191, 1, 1),
      (0x193, 0x193, 1, 205), (0x194, 0x194, 1, 207), (0x196, 0x196, 1, 211),
      (0x197, 0x197, 1, 209), (0x198, 0x198, 1, 1), (0x19C, 0x19C, 1, 211),
      (0x19D, 0x19D, 1, 213), (0x19F, 0x19F, 1, 214), (0x1A0, 0x1A4, 2, 1),
      (0x1A6, 0x1A6, 1, 218), (0x1A7, 0x1A7, 1, 1), (0x1A9, 0x1A9, 1, 218),
      (0x1AC, 0x1AC, 1, 1), (0x1AE, 0x1AE, 1, 218), (0x1AF, 0x1AF, 1, 1),
      (0x1B1, 0x1B2, 1, 217), (0x1B3, 0x1B5, 2, 1), (0x1B7, 0x1B7, 1, 219),
      (0x1B8, 0x1B8, 1, 1), (0x1BC, 0x1BC, 1, 1), (0x1C4, 0x1C4, 1, 2),
      (0x1C5, 0x1C5, 1, 1), (0x1C7, 0x1C7, 1, 2), (0x1C8, 0x1C8, 1, 1),
      (0x1CA, 0x1CA, 1, 2), (0x1CB, 0x1DB, 2, 1), (0x1DE, 0x1EE, 2, 1),
      (0x1F1, 0x1F1, 1, 2), (0x1F2, 0x1F4, 2, 1), (0x1F6, 0x1F6, 1, -97),
      (0x1F7, 0x1F7, 1, -56), (0x1F8, 0x21E, 2, 1), (0x220, 0x220, 1, -130),
      (0x222, 0x232, 2, 1), (0x23A, 0x23A, 1, 10795), (0x23B, 0x23B, 1, 1),
      (0x23D, 0x23D, 1, -163), (0x23E, 0x23E, 1, 10792), (0x241, 0x241, 1, 1),
      (0x243, 0x243, 1, -195), (0x244, 0x244, 1, 69), (0x245, 0x245, 1, 71),
      (0x246, 0x24E, 2, 1), (0x370, 0x372, 2, 1), (0x376, 0x376, 1, 1),
      (0x37F, 0x37F, 1, 116), (0x386, 0x386, 1, 38), (0x388, 0x38A, 1, 37),
      (0x38C, 0x38C, 1, 64), (0x38E, 0x38F, 1, 63), (0x391, 0x3A1, 1, 32),
      (0x3A3, 0x3AB, 1, 32), (0x3CF, 0x3CF, 1, 8), (0x3D8, 0x3EE, 2, 1),
      (0x3F4, 0x3F4, 1, -60), (0x3F7, 0x3F7, 1, 1), (0x3F9, 0x3F9, 1, -7),
      (0x3FA, 0x3FA, 1, 1), (0x3FD, 0x3FF, 1, -130), (0x400, 0x40F, 1, 80),
      (0x410, 0x42F, 1, 32), (0x460, 0x480, 2, 1), (0x48A, 0x4BE, 2, 1),
      (0x4C0, 0x4C0, 1, 15), (0x4C1, 0x4CD, 2, 1), (0x4D0, 0x52E, 2, 1),
      (0x531, 0x556, 1, 48), (0x10A0, 0x10C5, 1, 7264), (0x10C7, 0x10C7, 1, 7264),
      (0x10CD, 0x10CD, 1, 7264), (0x13A0, 0x13EF, 1, 38864), (0x13F0, 0x13F5, 1, 8),
      (0x1C90, 0x1CBA, 1, -3008), (0x1CBD, 0x1CBF, 1, -3008), (0x1E00, 0x1E94, 2, 1),
      (0x1E9E, 0x1E9E, 1, -7615), (0x1EA0, 0x1EFE, 2, 1), (0x1F08, 0x1F0F, 1, -8),
      (0x1F18, 0x1F1D, 1, -8), (0x1F28, 0x1F2F, 1, -8), (0x1F38, 0x1F3F, 1, -8),
      (0x1F48, 0x1F4D, 1, -8), (0x1F59, 0x1F5F, 2, -8), (0x1F68, 0x1F6F, 1, -8),
      (0x1F88, 0x1F8F, 1, -8), (0x1F98, 0x1F9F, 1, -8), (0x1FA8, 0x1FAF, 1, -8),
      (0x1FB8, 0x1FB9, 1, -8), (0x1FBA, 0x1FBB, 1, -74), (0x1FBC, 0x1FBC, 1, -9),
      (0x1FC8, 0x1FCB, 1, -86), (0x1FCC, 0x1FCC, 1, -9), (0x1FD8, 0x1FD9, 1, -8),
      (0x1FDA, 0x1FDB, 1, -100), (0x1FE8, 0x1FE9, 1, -8), (0x1FEA, 0x1FEB, 1, -112),
      (0x1FEC, 0x1FEC, 1, -7), (0x1FF8, 0x1FF9, 1, -128), (0x1FFA, 0x1FFB, 1, -126),
      (0x1FFC, 0x1FFC, 1, -9), (0x2126, 0x2126, 1, -7517), (0x212A, 0x212A, 1, -8383),
      (0x212B, 0x212B, 1, -8262), (0x2132, 0x2132, 1, 28), (0x2160, 0x216F, 1, 16),
      (0x2183, 0x2183, 1, 1), (0x24B6, 0x24CF, 1, 26), (0x2C00, 0x2C2F, 1, 48),
      (0x2C60, 0x2C60, 1, 1), (0x2C62, 0x2C62, 1, -10743), (0x2C63, 0x2C63, 1, -3814),
      (0x2C64, 0x2C64, 1, -10727), (0x2C67, 0x2C6B, 2, 1), (0x2C6D, 0x2C6D, 1, -10780),
      (0x2C6E, 0x2C6E, 1, -10749), (0x2C6F, 0x2C6F, 1, -10783),
      (0x2C70, 0x2C70, 1, -10782), (0x2C72, 0x2C72, 1, 1), (0x2C75, 0x2C75, 1, 1),
      (0x2C7E, 0x2C7F, 1, -10815), (0x2C80, 0x2CE2, 2, 1), (0x2CEB, 0x2CED, 2, 1),
      (0x2CF2, 0x2CF2, 1, 1), (0xA640, 0xA66C, 2, 1), (0xA680, 0xA69A, 2, 1),
      (0xA722, 0xA72E, 2, 1), (0xA732, 0xA76E, 2, 1), (0xA779, 0xA77B, 2, 1),
      (0xA77D, 0xA77D, 1, -35332), (0xA77E, 0xA786, 2, 1), (0xA78B, 0xA78B, 1, 1),
      (0xA78D, 0xA78D, 1, -42280), (0xA790, 0xA792, 2, 1), (0xA796, 0xA7A8, 2, 1),
      (0xA7AA, 0xA7AA, 1, -42308), (0xA7AB, 0xA7AB, 1, -42319),
      (0xA7AC, 0xA7AC, 1, -42315), (0xA7AD, 0xA7AD, 1, -42305),
      (0xA7AE, 0xA7AE, 1, -42308), (0xA7B0, 0xA7B0, 1, -42258),
      (0xA7B1, 0xA7B1, 1, -42282), (0xA7B2, 0xA7B2, 1, -42261), (0xA7B3, 0xA7B3, 1, 928),
      (0xA7B4, 0xA7C2, 2, 1), (0xA7C4, 0xA7C4, 1, -48), (0xA7C5, 0xA7C5, 1, -42307),
      (0xA7C6, 0xA7C6, 1, -35384), (0xA7C7, 0xA7C9, 2, 1), (0xA7D0, 0xA7D0, 1, 1),
      (0xA7D6, 0xA7D8, 2, 1), (0xA7F5, 0xA7F5, 1, 1), (0xFF21, 0xFF3A, 1, 32),
      (0x10400, 0x10427, 1, 40), (0x104B0, 0x104D3, 1, 40), (0x10570, 0x1057A, 1, 39),
      (0x1057C, 0x1058A, 1, 39), (0x1058C, 0x10592, 1, 39), (0x10594, 0x10595, 1, 39),
      (0x10C80, 0x10CB2, 1, 64), (0x118A0, 0x118BF, 1, 32), (0x16E40, 0x16E5F, 1, 32),
      (0x1E900, 0x1E921, 1, 34)]"

text \<open>
  The cased letters and the case-ignorable characters, for the rule of the final sigma.
  A character that is both is listed as case-ignorable.
\<close>

definition cased_ranges :: "(nat \<times> nat) list" where
  "cased_ranges =
     [(0x41, 0x5A), (0x61, 0x7A), (0xAA, 0xAA), (0xB5, 0xB5), (0xBA, 0xBA), (0xC0, 0xD6),
      (0xD8, 0xF6), (0xF8, 0x1BA), (0x1BC, 0x1BF), (0x1C4, 0x293), (0x295, 0x2AF),
      (0x370, 0x373), (0x376, 0x377), (0x37B, 0x37D), (0x37F, 0x37F), (0x386, 0x386),
      (0x388, 0x38A), (0x38C, 0x38C), (0x38E, 0x3A1), (0x3A3, 0x3F5), (0x3F7, 0x481),
      (0x48A, 0x52F), (0x531, 0x556), (0x560, 0x588), (0x10A0, 0x10C5), (0x10C7, 0x10C7),
      (0x10CD, 0x10CD), (0x10D0, 0x10FA), (0x10FD, 0x10FF), (0x13A0, 0x13F5),
      (0x13F8, 0x13FD), (0x1C80, 0x1C88), (0x1C90, 0x1CBA), (0x1CBD, 0x1CBF),
      (0x1D00, 0x1D2B), (0x1D6B, 0x1D77), (0x1D79, 0x1D9A), (0x1E00, 0x1F15),
      (0x1F18, 0x1F1D), (0x1F20, 0x1F45), (0x1F48, 0x1F4D), (0x1F50, 0x1F57),
      (0x1F59, 0x1F59), (0x1F5B, 0x1F5B), (0x1F5D, 0x1F5D), (0x1F5F, 0x1F7D),
      (0x1F80, 0x1FB4), (0x1FB6, 0x1FBC), (0x1FBE, 0x1FBE), (0x1FC2, 0x1FC4),
      (0x1FC6, 0x1FCC), (0x1FD0, 0x1FD3), (0x1FD6, 0x1FDB), (0x1FE0, 0x1FEC),
      (0x1FF2, 0x1FF4), (0x1FF6, 0x1FFC), (0x2102, 0x2102), (0x2107, 0x2107),
      (0x210A, 0x2113), (0x2115, 0x2115), (0x2119, 0x211D), (0x2124, 0x2124),
      (0x2126, 0x2126), (0x2128, 0x2128), (0x212A, 0x212D), (0x212F, 0x2134),
      (0x2139, 0x2139), (0x213C, 0x213F), (0x2145, 0x2149), (0x214E, 0x214E),
      (0x2160, 0x217F), (0x2183, 0x2184), (0x24B6, 0x24E9), (0x2C00, 0x2C7B),
      (0x2C7E, 0x2CE4), (0x2CEB, 0x2CEE), (0x2CF2, 0x2CF3), (0x2D00, 0x2D25),
      (0x2D27, 0x2D27), (0x2D2D, 0x2D2D), (0xA640, 0xA66D), (0xA680, 0xA69B),
      (0xA722, 0xA76F), (0xA771, 0xA787), (0xA78B, 0xA78E), (0xA790, 0xA7CA),
      (0xA7D0, 0xA7D1), (0xA7D3, 0xA7D3), (0xA7D5, 0xA7D9), (0xA7F5, 0xA7F6),
      (0xA7FA, 0xA7FA), (0xAB30, 0xAB5A), (0xAB60, 0xAB68), (0xAB70, 0xABBF),
      (0xFB00, 0xFB06), (0xFB13, 0xFB17), (0xFF21, 0xFF3A), (0xFF41, 0xFF5A),
      (0x10400, 0x1044F), (0x104B0, 0x104D3), (0x104D8, 0x104FB), (0x10570, 0x1057A),
      (0x1057C, 0x1058A), (0x1058C, 0x10592), (0x10594, 0x10595), (0x10597, 0x105A1),
      (0x105A3, 0x105B1), (0x105B3, 0x105B9), (0x105BB, 0x105BC), (0x10C80, 0x10CB2),
      (0x10CC0, 0x10CF2), (0x118A0, 0x118DF), (0x16E40, 0x16E7F), (0x1D400, 0x1D454),
      (0x1D456, 0x1D49C), (0x1D49E, 0x1D49F), (0x1D4A2, 0x1D4A2), (0x1D4A5, 0x1D4A6),
      (0x1D4A9, 0x1D4AC), (0x1D4AE, 0x1D4B9), (0x1D4BB, 0x1D4BB), (0x1D4BD, 0x1D4C3),
      (0x1D4C5, 0x1D505), (0x1D507, 0x1D50A), (0x1D50D, 0x1D514), (0x1D516, 0x1D51C),
      (0x1D51E, 0x1D539), (0x1D53B, 0x1D53E), (0x1D540, 0x1D544), (0x1D546, 0x1D546),
      (0x1D54A, 0x1D550), (0x1D552, 0x1D6A5), (0x1D6A8, 0x1D6C0), (0x1D6C2, 0x1D6DA),
      (0x1D6DC, 0x1D6FA), (0x1D6FC, 0x1D714), (0x1D716, 0x1D734), (0x1D736, 0x1D74E),
      (0x1D750, 0x1D76E), (0x1D770, 0x1D788), (0x1D78A, 0x1D7A8), (0x1D7AA, 0x1D7C2),
      (0x1D7C4, 0x1D7CB), (0x1DF00, 0x1DF09), (0x1DF0B, 0x1DF1E), (0x1E900, 0x1E943),
      (0x1F130, 0x1F149), (0x1F150, 0x1F169), (0x1F170, 0x1F189)]"

definition ignorable_ranges :: "(nat \<times> nat) list" where
  "ignorable_ranges =
     [(0x27, 0x27), (0x2E, 0x2E), (0x3A, 0x3A), (0x5E, 0x5E), (0x60, 0x60), (0xA8, 0xA8),
      (0xAD, 0xAD), (0xAF, 0xAF), (0xB4, 0xB4), (0xB7, 0xB8), (0x2B0, 0x36F),
      (0x374, 0x375), (0x37A, 0x37A), (0x384, 0x385), (0x387, 0x387), (0x483, 0x489),
      (0x559, 0x559), (0x55F, 0x55F), (0x591, 0x5BD), (0x5BF, 0x5BF), (0x5C1, 0x5C2),
      (0x5C4, 0x5C5), (0x5C7, 0x5C7), (0x5F4, 0x5F4), (0x600, 0x605), (0x610, 0x61A),
      (0x61C, 0x61C), (0x640, 0x640), (0x64B, 0x65F), (0x670, 0x670), (0x6D6, 0x6DD),
      (0x6DF, 0x6E8), (0x6EA, 0x6ED), (0x70F, 0x70F), (0x711, 0x711), (0x730, 0x74A),
      (0x7A6, 0x7B0), (0x7EB, 0x7F5), (0x7FA, 0x7FA), (0x7FD, 0x7FD), (0x816, 0x82D),
      (0x859, 0x85B), (0x888, 0x888), (0x890, 0x891), (0x898, 0x89F), (0x8C9, 0x902),
      (0x93A, 0x93A), (0x93C, 0x93C), (0x941, 0x948), (0x94D, 0x94D), (0x951, 0x957),
      (0x962, 0x963), (0x971, 0x971), (0x981, 0x981), (0x9BC, 0x9BC), (0x9C1, 0x9C4),
      (0x9CD, 0x9CD), (0x9E2, 0x9E3), (0x9FE, 0x9FE), (0xA01, 0xA02), (0xA3C, 0xA3C),
      (0xA41, 0xA42), (0xA47, 0xA48), (0xA4B, 0xA4D), (0xA51, 0xA51), (0xA70, 0xA71),
      (0xA75, 0xA75), (0xA81, 0xA82), (0xABC, 0xABC), (0xAC1, 0xAC5), (0xAC7, 0xAC8),
      (0xACD, 0xACD), (0xAE2, 0xAE3), (0xAFA, 0xAFF), (0xB01, 0xB01), (0xB3C, 0xB3C),
      (0xB3F, 0xB3F), (0xB41, 0xB44), (0xB4D, 0xB4D), (0xB55, 0xB56), (0xB62, 0xB63),
      (0xB82, 0xB82), (0xBC0, 0xBC0), (0xBCD, 0xBCD), (0xC00, 0xC00), (0xC04, 0xC04),
      (0xC3C, 0xC3C), (0xC3E, 0xC40), (0xC46, 0xC48), (0xC4A, 0xC4D), (0xC55, 0xC56),
      (0xC62, 0xC63), (0xC81, 0xC81), (0xCBC, 0xCBC), (0xCBF, 0xCBF), (0xCC6, 0xCC6),
      (0xCCC, 0xCCD), (0xCE2, 0xCE3), (0xD00, 0xD01), (0xD3B, 0xD3C), (0xD41, 0xD44),
      (0xD4D, 0xD4D), (0xD62, 0xD63), (0xD81, 0xD81), (0xDCA, 0xDCA), (0xDD2, 0xDD4),
      (0xDD6, 0xDD6), (0xE31, 0xE31), (0xE34, 0xE3A), (0xE46, 0xE4E), (0xEB1, 0xEB1),
      (0xEB4, 0xEBC), (0xEC6, 0xEC6), (0xEC8, 0xECD), (0xF18, 0xF19), (0xF35, 0xF35),
      (0xF37, 0xF37), (0xF39, 0xF39), (0xF71, 0xF7E), (0xF80, 0xF84), (0xF86, 0xF87),
      (0xF8D, 0xF97), (0xF99, 0xFBC), (0xFC6, 0xFC6), (0x102D, 0x1030), (0x1032, 0x1037),
      (0x1039, 0x103A), (0x103D, 0x103E), (0x1058, 0x1059), (0x105E, 0x1060),
      (0x1071, 0x1074), (0x1082, 0x1082), (0x1085, 0x1086), (0x108D, 0x108D),
      (0x109D, 0x109D), (0x10FC, 0x10FC), (0x135D, 0x135F), (0x1712, 0x1714),
      (0x1732, 0x1733), (0x1752, 0x1753), (0x1772, 0x1773), (0x17B4, 0x17B5),
      (0x17B7, 0x17BD), (0x17C6, 0x17C6), (0x17C9, 0x17D3), (0x17D7, 0x17D7),
      (0x17DD, 0x17DD), (0x180B, 0x180F), (0x1843, 0x1843), (0x1885, 0x1886),
      (0x18A9, 0x18A9), (0x1920, 0x1922), (0x1927, 0x1928), (0x1932, 0x1932),
      (0x1939, 0x193B), (0x1A17, 0x1A18), (0x1A1B, 0x1A1B), (0x1A56, 0x1A56),
      (0x1A58, 0x1A5E), (0x1A60, 0x1A60), (0x1A62, 0x1A62), (0x1A65, 0x1A6C),
      (0x1A73, 0x1A7C), (0x1A7F, 0x1A7F), (0x1AA7, 0x1AA7), (0x1AB0, 0x1ACE),
      (0x1B00, 0x1B03), (0x1B34, 0x1B34), (0x1B36, 0x1B3A), (0x1B3C, 0x1B3C),
      (0x1B42, 0x1B42), (0x1B6B, 0x1B73), (0x1B80, 0x1B81), (0x1BA2, 0x1BA5),
      (0x1BA8, 0x1BA9), (0x1BAB, 0x1BAD), (0x1BE6, 0x1BE6), (0x1BE8, 0x1BE9),
      (0x1BED, 0x1BED), (0x1BEF, 0x1BF1), (0x1C2C, 0x1C33), (0x1C36, 0x1C37),
      (0x1C78, 0x1C7D), (0x1CD0, 0x1CD2), (0x1CD4, 0x1CE0), (0x1CE2, 0x1CE8),
      (0x1CED, 0x1CED), (0x1CF4, 0x1CF4), (0x1CF8, 0x1CF9), (0x1D2C, 0x1D6A),
      (0x1D78, 0x1D78), (0x1D9B, 0x1DFF), (0x1FBD, 0x1FBD), (0x1FBF, 0x1FC1),
      (0x1FCD, 0x1FCF), (0x1FDD, 0x1FDF), (0x1FED, 0x1FEF), (0x1FFD, 0x1FFE),
      (0x200B, 0x200F), (0x2018, 0x2019), (0x2024, 0x2024), (0x2027, 0x2027),
      (0x202A, 0x202E), (0x2060, 0x2064), (0x2066, 0x206F), (0x2071, 0x2071),
      (0x207F, 0x207F), (0x2090, 0x209C), (0x20D0, 0x20F0), (0x2C7C, 0x2C7D),
      (0x2CEF, 0x2CF1), (0x2D6F, 0x2D6F), (0x2D7F, 0x2D7F), (0x2DE0, 0x2DFF),
      (0x2E2F, 0x2E2F), (0x3005, 0x3005), (0x302A, 0x302D), (0x3031, 0x3035),
      (0x303B, 0x303B), (0x3099, 0x309E), (0x30FC, 0x30FE), (0xA015, 0xA015),
      (0xA4F8, 0xA4FD), (0xA60C, 0xA60C), (0xA66F, 0xA672), (0xA674, 0xA67D),
      (0xA67F, 0xA67F), (0xA69C, 0xA69F), (0xA6F0, 0xA6F1), (0xA700, 0xA721),
      (0xA770, 0xA770), (0xA788, 0xA78A), (0xA7F2, 0xA7F4), (0xA7F8, 0xA7F9),
      (0xA802, 0xA802), (0xA806, 0xA806), (0xA80B, 0xA80B), (0xA825, 0xA826),
      (0xA82C, 0xA82C), (0xA8C4, 0xA8C5), (0xA8E0, 0xA8F1), (0xA8FF, 0xA8FF),
      (0xA926, 0xA92D), (0xA947, 0xA951), (0xA980, 0xA982), (0xA9B3, 0xA9B3),
      (0xA9B6, 0xA9B9), (0xA9BC, 0xA9BD), (0xA9CF, 0xA9CF), (0xA9E5, 0xA9E6),
      (0xAA29, 0xAA2E), (0xAA31, 0xAA32), (0xAA35, 0xAA36), (0xAA43, 0xAA43),
      (0xAA4C, 0xAA4C), (0xAA70, 0xAA70), (0xAA7C, 0xAA7C), (0xAAB0, 0xAAB0),
      (0xAAB2, 0xAAB4), (0xAAB7, 0xAAB8), (0xAABE, 0xAABF), (0xAAC1, 0xAAC1),
      (0xAADD, 0xAADD), (0xAAEC, 0xAAED), (0xAAF3, 0xAAF4), (0xAAF6, 0xAAF6),
      (0xAB5B, 0xAB5F), (0xAB69, 0xAB6B), (0xABE5, 0xABE5), (0xABE8, 0xABE8),
      (0xABED, 0xABED), (0xFB1E, 0xFB1E), (0xFBB2, 0xFBC2), (0xFE00, 0xFE0F),
      (0xFE13, 0xFE13), (0xFE20, 0xFE2F), (0xFE52, 0xFE52), (0xFE55, 0xFE55),
      (0xFEFF, 0xFEFF), (0xFF07, 0xFF07), (0xFF0E, 0xFF0E), (0xFF1A, 0xFF1A),
      (0xFF3E, 0xFF3E), (0xFF40, 0xFF40), (0xFF70, 0xFF70), (0xFF9E, 0xFF9F),
      (0xFFE3, 0xFFE3), (0xFFF9, 0xFFFB), (0x101FD, 0x101FD), (0x102E0, 0x102E0),
      (0x10376, 0x1037A), (0x10780, 0x10785), (0x10787, 0x107B0), (0x107B2, 0x107BA),
      (0x10A01, 0x10A03), (0x10A05, 0x10A06), (0x10A0C, 0x10A0F), (0x10A38, 0x10A3A),
      (0x10A3F, 0x10A3F), (0x10AE5, 0x10AE6), (0x10D24, 0x10D27), (0x10EAB, 0x10EAC),
      (0x10F46, 0x10F50), (0x10F82, 0x10F85), (0x11001, 0x11001), (0x11038, 0x11046),
      (0x11070, 0x11070), (0x11073, 0x11074), (0x1107F, 0x11081), (0x110B3, 0x110B6),
      (0x110B9, 0x110BA), (0x110BD, 0x110BD), (0x110C2, 0x110C2), (0x110CD, 0x110CD),
      (0x11100, 0x11102), (0x11127, 0x1112B), (0x1112D, 0x11134), (0x11173, 0x11173),
      (0x11180, 0x11181), (0x111B6, 0x111BE), (0x111C9, 0x111CC), (0x111CF, 0x111CF),
      (0x1122F, 0x11231), (0x11234, 0x11234), (0x11236, 0x11237), (0x1123E, 0x1123E),
      (0x112DF, 0x112DF), (0x112E3, 0x112EA), (0x11300, 0x11301), (0x1133B, 0x1133C),
      (0x11340, 0x11340), (0x11366, 0x1136C), (0x11370, 0x11374), (0x11438, 0x1143F),
      (0x11442, 0x11444), (0x11446, 0x11446), (0x1145E, 0x1145E), (0x114B3, 0x114B8),
      (0x114BA, 0x114BA), (0x114BF, 0x114C0), (0x114C2, 0x114C3), (0x115B2, 0x115B5),
      (0x115BC, 0x115BD), (0x115BF, 0x115C0), (0x115DC, 0x115DD), (0x11633, 0x1163A),
      (0x1163D, 0x1163D), (0x1163F, 0x11640), (0x116AB, 0x116AB), (0x116AD, 0x116AD),
      (0x116B0, 0x116B5), (0x116B7, 0x116B7), (0x1171D, 0x1171F), (0x11722, 0x11725),
      (0x11727, 0x1172B), (0x1182F, 0x11837), (0x11839, 0x1183A), (0x1193B, 0x1193C),
      (0x1193E, 0x1193E), (0x11943, 0x11943), (0x119D4, 0x119D7), (0x119DA, 0x119DB),
      (0x119E0, 0x119E0), (0x11A01, 0x11A0A), (0x11A33, 0x11A38), (0x11A3B, 0x11A3E),
      (0x11A47, 0x11A47), (0x11A51, 0x11A56), (0x11A59, 0x11A5B), (0x11A8A, 0x11A96),
      (0x11A98, 0x11A99), (0x11C30, 0x11C36), (0x11C38, 0x11C3D), (0x11C3F, 0x11C3F),
      (0x11C92, 0x11CA7), (0x11CAA, 0x11CB0), (0x11CB2, 0x11CB3), (0x11CB5, 0x11CB6),
      (0x11D31, 0x11D36), (0x11D3A, 0x11D3A), (0x11D3C, 0x11D3D), (0x11D3F, 0x11D45),
      (0x11D47, 0x11D47), (0x11D90, 0x11D91), (0x11D95, 0x11D95), (0x11D97, 0x11D97),
      (0x11EF3, 0x11EF4), (0x13430, 0x13438), (0x16AF0, 0x16AF4), (0x16B30, 0x16B36),
      (0x16B40, 0x16B43), (0x16F4F, 0x16F4F), (0x16F8F, 0x16F9F), (0x16FE0, 0x16FE1),
      (0x16FE3, 0x16FE4), (0x1AFF0, 0x1AFF3), (0x1AFF5, 0x1AFFB), (0x1AFFD, 0x1AFFE),
      (0x1BC9D, 0x1BC9E), (0x1BCA0, 0x1BCA3), (0x1CF00, 0x1CF2D), (0x1CF30, 0x1CF46),
      (0x1D167, 0x1D169), (0x1D173, 0x1D182), (0x1D185, 0x1D18B), (0x1D1AA, 0x1D1AD),
      (0x1D242, 0x1D244), (0x1DA00, 0x1DA36), (0x1DA3B, 0x1DA6C), (0x1DA75, 0x1DA75),
      (0x1DA84, 0x1DA84), (0x1DA9B, 0x1DA9F), (0x1DAA1, 0x1DAAF), (0x1E000, 0x1E006),
      (0x1E008, 0x1E018), (0x1E01B, 0x1E021), (0x1E023, 0x1E024), (0x1E026, 0x1E02A),
      (0x1E130, 0x1E13D), (0x1E2AE, 0x1E2AE), (0x1E2EC, 0x1E2EF), (0x1E8D0, 0x1E8D6),
      (0x1E944, 0x1E94B), (0x1F3FB, 0x1F3FF), (0xE0001, 0xE0001), (0xE0020, 0xE007F),
      (0xE0100, 0xE01EF)]"

definition in_ranges :: "(nat \<times> nat) list \<Rightarrow> string \<Rightarrow> bool" where
  "in_ranges rs bs =
     (utf8_encode (utf8_decode bs) = bs
      \<and> list_ex (\<lambda>(lo, hi). lo \<le> utf8_decode bs \<and> utf8_decode bs \<le> hi) rs)"

definition lower_code_point :: "nat \<Rightarrow> nat list" where
  "lower_code_point cp =
     (if cp = 0x130 then [0x69, 0x307]
      else
        case find (\<lambda>(lo, hi, step, off). lo \<le> cp \<and> cp \<le> hi \<and> (cp - lo) mod step = 0)
               lower_ranges of
          None \<Rightarrow> [cp]
        | Some (lo, hi, step, off) \<Rightarrow> [nat (int cp + off)])"

definition toLowerCase_char :: "string \<Rightarrow> string" where
  "toLowerCase_char bs =
     (if length bs = 1 then
        (if 0x41 \<le> (of_char (hd bs) :: nat) \<and> (of_char (hd bs) :: nat) \<le> 0x5A
         then [char_of ((of_char (hd bs) :: nat) + 32)] else bs)
      else if utf8_encode (utf8_decode bs) = bs
        then concat (map utf8_encode (lower_code_point (utf8_decode bs)))
      else bs)"

definition final_sigma :: "string list \<Rightarrow> string list \<Rightarrow> bool" where
  \<comment> \<open>The characters before a capital sigma, the nearest first, and those after it.\<close>
  "final_sigma prev rest =
     ((case dropWhile (in_ranges ignorable_ranges) prev of
         [] \<Rightarrow> False | c # _ \<Rightarrow> in_ranges cased_ranges c)
      \<and> (case dropWhile (in_ranges ignorable_ranges) rest of
            [] \<Rightarrow> True | c # _ \<Rightarrow> \<not> in_ranges cased_ranges c))"

fun lower_chars :: "string list \<Rightarrow> string list \<Rightarrow> string list" where
  "lower_chars prev [] = []"
| "lower_chars prev (c # rest) =
     (if c = [CHR 0xCE, CHR 0xA3]
      then (if final_sigma prev rest then [CHR 0xCF, CHR 0x82] else [CHR 0xCF, CHR 0x83])
      else toLowerCase_char c)
     # lower_chars (c # prev) rest"

definition toLowerCase :: "string \<Rightarrow> string" where
  "toLowerCase s = concat (lower_chars [] (utf8_chars s))"

fun includes_str :: "string \<Rightarrow> string \<Rightarrow> bool" where
  "includes_str [] needle = (needle = [])"
| "includes_str (c # cs) needle = (prefix needle (c # cs) \<or> includes_str cs needle)"

definition whitespace :: "string list" where
  "whitespace =
     [[CHR 0x09], [CHR 0x0A], [CHR 0x0B], [CHR 0x0C], [CHR 0x0D], [CHR 0x20],
      [CHR 0xC2, CHR 0xA0], [CHR 0xE1, CHR 0x9A, CHR 0x80]]
     @ map (\<lambda>b. [CHR 0xE2, CHR 0x80, char_of b]) [0x80 ..< 0x8B :: nat]
     @ [[CHR 0xE2, CHR 0x80, CHR 0xA8], [CHR 0xE2, CHR 0x80, CHR 0xA9],
        [CHR 0xE2, CHR 0x80, CHR 0xAF], [CHR 0xE2, CHR 0x81, CHR 0x9F],
        [CHR 0xE3, CHR 0x80, CHR 0x80], [CHR 0xEF, CHR 0xBB, CHR 0xBF]]"

definition ws_at_start :: "string list \<Rightarrow> string \<Rightarrow> nat" where
  "ws_at_start ws s = (case find (\<lambda>w. prefix w s) ws of None \<Rightarrow> 0 | Some w \<Rightarrow> length w)"

function strip :: "string list \<Rightarrow> string \<Rightarrow> string" where
  "strip ws s =
     (if 0 < ws_at_start ws s \<and> s \<noteq> [] then strip ws (drop (ws_at_start ws s) s) else s)"
  by pat_completeness auto
termination
  by (relation "measure (\<lambda>(ws, s). length s)") auto

declare strip.simps [simp del]

definition trim :: "string \<Rightarrow> string" where
  "trim s = rev (strip (map rev whitespace) (rev (strip whitespace s)))"

definition or_else :: "string option \<Rightarrow> string \<Rightarrow> string" where
  \<comment> \<open>\<^verbatim>\<open>a || b\<close>: the left operand unless it is falsy (undefined or the empty string).\<close>
  "or_else a b = (case a of None \<Rightarrow> b | Some s \<Rightarrow> if s = [] then b else s)"

definition truthy :: "string option \<Rightarrow> string option" where
  \<comment> \<open>What passes the test \<^verbatim>\<open>if (!x) return\<close>: a string that is there and not empty.\<close>
  "truthy a = (case a of None \<Rightarrow> None | Some s \<Rightarrow> if s = [] then None else Some s)"

definition template :: "string option \<Rightarrow> string" where
  \<comment> \<open>\<^verbatim>\<open>${x}\<close> in a template literal.\<close>
  "template a = (case a of None \<Rightarrow> ''undefined'' | Some s \<Rightarrow> s)"

definition unreserved :: "char \<Rightarrow> bool" where
  "unreserved c =
     (let n = (of_char c :: nat) in
        (65 \<le> n \<and> n \<le> 90) \<or> (97 \<le> n \<and> n \<le> 122) \<or> (48 \<le> n \<and> n \<le> 57)
        \<or> c \<in> set (''-_.!~*()'' @ [CHR 0x27]))"

definition hex_digit :: "nat \<Rightarrow> char" where
  "hex_digit n = ''0123456789ABCDEF'' ! (n mod 16)"

definition percent :: "char \<Rightarrow> string" where
  "percent c = [CHR ''%'', hex_digit (of_char c div 16), hex_digit (of_char c mod 16)]"

definition encodeURIComponent :: "string \<Rightarrow> string" where
  "encodeURIComponent s = concat (map (\<lambda>c. if unreserved c then [c] else percent c) s)"

section \<open>Types\<close>

text \<open>
  The file of the component holds two listings of it, one after the other. They have the
  same types, \<^verbatim>\<open>addToast\<close>, \<^verbatim>\<open>removeToast\<close> and handlers; they differ in
  \<^verbatim>\<open>fetchWeather\<close> and in the presentation (only the first has
  \<^verbatim>\<open>getBackgroundGradient\<close>, and the colours of \<^verbatim>\<open>getUvLabel\<close> differ).
\<close>

datatype listing = First | Second

record request_t =
  request_query :: string

record location_t =
  name :: string
  country :: string
  region :: string
  localtime :: string
  utc_offset :: string

record current_t =
  temperature :: int
  weather_descriptions :: "string list"
  weather_icons :: "string list"
  weather_code :: int
  wind_speed :: int
  wind_dir :: string
  humidity :: int
  feelslike :: int
  uv_index :: int
  visibility :: int
  pressure :: int
  cloudcover :: int
  is_day :: string

record WeatherData =
  request :: request_t
  location :: location_t
  current :: current_t

text \<open>
  The object under \<^verbatim>\<open>error\<close> of an \<^verbatim>\<open>ApiError\<close>, whose \<^verbatim>\<open>success\<close> is
  always false. \<^verbatim>\<open>info\<close> may be missing from a body: the code provides for it.
\<close>

record ApiError =
  code :: int
  error_type :: string
  info :: "string option"

datatype toast_type = Error | Warning | Info

record Toast =
  toast_id :: int
  message :: string
  toast_type :: toast_type

section \<open>Presentation mapping\<close>

definition getBackgroundGradient :: "string \<Rightarrow> bool \<Rightarrow> string" where
  "getBackgroundGradient description isDay =
     (let desc = toLowerCase description in
      if includes_str desc ''thunder'' \<or> includes_str desc ''storm''
        then ''from-gray-800 via-slate-800 to-gray-900''
      else if includes_str desc ''snow'' \<or> includes_str desc ''blizzard'' \<or> includes_str desc ''sleet''
        then ''from-indigo-300 via-blue-200 to-slate-300''
      else if includes_str desc ''rain'' \<or> includes_str desc ''drizzle'' \<or> includes_str desc ''shower''
        then ''from-slate-600 via-gray-600 to-slate-800''
      else if includes_str desc ''fog'' \<or> includes_str desc ''mist'' \<or> includes_str desc ''haze''
        then ''from-gray-400 via-slate-400 to-gray-500''
      else if includes_str desc ''overcast'' \<or> includes_str desc ''cloudy''
        then ''from-slate-700 via-gray-700 to-slate-900''
      else if includes_str desc ''partly cloudy''
        then (if isDay then ''from-sky-400 via-blue-400 to-slate-500''
              else ''from-indigo-800 via-slate-800 to-gray-900'')
      else if includes_str desc ''clear'' \<or> includes_str desc ''sunny''
        then (if isDay then ''from-blue-400 via-sky-400 to-blue-600''
              else ''from-indigo-900 via-purple-900 to-slate-900'')
      else (if isDay then ''from-sky-500 via-blue-500 to-cyan-500''
            else ''from-slate-800 via-indigo-900 to-gray-900''))"

record uv_label =
  label :: string
  color :: string

definition getUvLabel1 :: "int \<Rightarrow> uv_label" where
  "getUvLabel1 uv =
     (if uv \<le> 2 then \<lparr>label = ''Low'', color = ''text-green-300''\<rparr>
      else if uv \<le> 5 then \<lparr>label = ''Moderate'', color = ''text-yellow-300''\<rparr>
      else if uv \<le> 7 then \<lparr>label = ''High'', color = ''text-orange-300''\<rparr>
      else if uv \<le> 10 then \<lparr>label = ''Very High'', color = ''text-red-300''\<rparr>
      else \<lparr>label = ''Extreme'', color = ''text-pink-300''\<rparr>)"

definition getUvLabel2 :: "int \<Rightarrow> uv_label" where
  "getUvLabel2 uv =
     (if uv \<le> 2 then \<lparr>label = ''Low'', color = ''text-emerald-400''\<rparr>
      else if uv \<le> 5 then \<lparr>label = ''Moderate'', color = ''text-yellow-400''\<rparr>
      else if uv \<le> 7 then \<lparr>label = ''High'', color = ''text-orange-400''\<rparr>
      else if uv \<le> 10 then \<lparr>label = ''Very High'', color = ''text-red-400''\<rparr>
      else \<lparr>label = ''Extreme'', color = ''text-pink-400''\<rparr>)"

text \<open>\<^verbatim>\<open>getUvLabel\<close> of a listing.\<close>

definition getUvLabel :: "listing \<Rightarrow> int \<Rightarrow> uv_label" where
  "getUvLabel L uv = (case L of First \<Rightarrow> getUvLabel1 uv | Second \<Rightarrow> getUvLabel2 uv)"

section \<open>Dashboard state\<close>

text \<open>
  The state of the component (the five \<^verbatim>\<open>useState\<close> cells), the browser's
  \<^verbatim>\<open>localStorage\<close>, and the requests that \<^verbatim>\<open>fetchWeather\<close> has issued and
  that have not settled yet: each with the \<^verbatim>\<open>q\<close> its continuation holds and the URL
  it was sent to.
\<close>

record world =
  weather :: "WeatherData option"
  loading :: bool
  query :: string
  toasts :: "Toast list"
  locating :: bool
  localStorage :: "string \<rightharpoonup> string"
  pending :: "(string \<times> string) list"

text \<open>
  What a handler reads from its surroundings when it runs: \<^verbatim>\<open>Date.now()\<close>,
  \<^verbatim>\<open>window.location\<close>, \<^verbatim>\<open>import.meta.env.VITE_WEATHER_KEY\<close> and whether
  \<^verbatim>\<open>navigator.geolocation\<close> is there.
\<close>

record env =
  now :: int
  hostname :: string
  protocol :: string
  API_KEY :: "string option"
  geolocation :: bool

definition initial_world :: "(string \<rightharpoonup> string) \<Rightarrow> world" where
  "initial_world stored =
     \<lparr>weather = None, loading = False, query = [], toasts = [], locating = False,
      localStorage = stored, pending = []\<rparr>"

definition addToast :: "int \<Rightarrow> string \<Rightarrow> toast_type \<Rightarrow> world \<Rightarrow> world" where
  "addToast date_now msg ty w =
     w\<lparr>toasts := toasts w @ [\<lparr>toast_id = date_now, message = msg, toast_type = ty\<rparr>]\<rparr>"

definition removeToast :: "int \<Rightarrow> world \<Rightarrow> world" where
  "removeToast i w = w\<lparr>toasts := filter (\<lambda>t. toast_id t \<noteq> i) (toasts w)\<rparr>"

section \<open>fetchWeather\<close>

text \<open>
  What the two awaits of \<^verbatim>\<open>fetchWeather\<close> give back: the parsed body, or an
  exception (\<^verbatim>\<open>fetch\<close> rejected, or \<^verbatim>\<open>res.json()\<close> did). A parsed body is one of
  the two declared shapes: an \<^verbatim>\<open>ApiError\<close> (\<^verbatim>\<open>success === false\<close>) or a
  \<^verbatim>\<open>WeatherData\<close>. The function is given in two parts, up to its await and after
  it; \<^verbatim>\<open>localStorage.setItem\<close> is taken to succeed.
\<close>

datatype js_error = JsError (is_TypeError: bool) (error_message: string)

datatype data = ApiErrorBody ApiError | WeatherBody WeatherData

datatype response = Thrown js_error | Parsed data

definition upstream_url :: "string option \<Rightarrow> string \<Rightarrow> string" where
  "upstream_url key q =
     ''http://api.weatherstack.com/current?access_key='' @ template key
       @ ''&query='' @ encodeURIComponent q"

definition proxy_url :: "string \<Rightarrow> string" where
  "proxy_url q = ''/api/weather?query='' @ encodeURIComponent q"

definition api_error_message :: "ApiError \<Rightarrow> string" where
  "api_error_message err =
     (if code err = 615 then ''City not found. Please check the name and try again.''
      else if code err = 101 then ''Invalid API key. Please check your .env configuration.''
      else or_else (info err) ''An unknown API error occurred.'')"

definition mixed_content_warning :: string where
  "mixed_content_warning =
     ''Weatherstack free tier uses HTTP. Your browser may block this request on HTTPS. Run locally or use a proxy.''"

definition network_error_message :: string where
  \<comment> \<open>After "Network error" the file holds the bytes of U+201A, U+00C4 and U+00EE.\<close>
  "network_error_message =
     ''Network error '' @ [CHR 0xE2, CHR 0x80, CHR 0x9A, CHR 0xC3, CHR 0x84, CHR 0xC3, CHR 0xAE]
       @ '' the request was likely blocked due to mixed content (HTTP on HTTPS). Try running on localhost.''"

definition fetch_failed_message :: string where
  "fetch_failed_message = ''Failed to fetch weather data. Please try again.''"

text \<open>The first listing, up to the await and after it.\<close>

definition fetchWeather1_start :: "env \<Rightarrow> string \<Rightarrow> world \<Rightarrow> world" where
  "fetchWeather1_start e q w =
     (if trim q = [] then w
      else
        let w1 = w\<lparr>loading := True, weather := None\<rparr>;
            w2 = (if protocol e = ''https:''
                  then addToast (now e) mixed_content_warning Warning w1 else w1)
        in w2\<lparr>pending := pending w2 @ [(q, upstream_url (API_KEY e) q)]\<rparr>)"

definition fetchWeather1_resume :: "env \<Rightarrow> string \<Rightarrow> response \<Rightarrow> world \<Rightarrow> world" where
  "fetchWeather1_resume e q r w =
     (case r of
        Parsed (ApiErrorBody err) \<Rightarrow>
          (addToast (now e) (api_error_message err) Error w)\<lparr>loading := False\<rparr>
      | Parsed (WeatherBody d) \<Rightarrow>
          w\<lparr>weather := Some d,
            localStorage := (localStorage w)(''weather_last_city'' \<mapsto> trim q),
            loading := False\<rparr>
      | Thrown err \<Rightarrow>
          (addToast (now e)
             (if is_TypeError err \<and> includes_str (error_message err) ''fetch''
              then network_error_message else fetch_failed_message)
             Error w)\<lparr>loading := False\<rparr>)"

text \<open>The second listing.\<close>

definition fetchWeather2_start :: "env \<Rightarrow> string \<Rightarrow> world \<Rightarrow> world" where
  "fetchWeather2_start e q w =
     (if trim q = [] then w
      else
        let w1 = w\<lparr>loading := True, weather := None\<rparr>;
            isLocal = (hostname e = ''localhost'' \<or> hostname e = ''127.0.0.1'');
            url = (if isLocal then upstream_url (API_KEY e) q else proxy_url q)
        in w1\<lparr>pending := pending w1 @ [(q, url)]\<rparr>)"

definition fetchWeather2_resume :: "env \<Rightarrow> string \<Rightarrow> response \<Rightarrow> world \<Rightarrow> world" where
  "fetchWeather2_resume e q r w =
     (case r of
        Parsed (ApiErrorBody err) \<Rightarrow>
          (addToast (now e) (api_error_message err) Error w)\<lparr>loading := False\<rparr>
      | Parsed (WeatherBody d) \<Rightarrow>
          w\<lparr>weather := Some d,
            localStorage := (localStorage w)(''weather_last_city'' \<mapsto> trim q),
            loading := False\<rparr>
      | Thrown err \<Rightarrow>
          (addToast (now e) fetch_failed_message Error w)\<lparr>loading := False\<rparr>)"

text \<open>\<^verbatim>\<open>fetchWeather\<close> of a listing.\<close>

definition fetchWeather_start :: "listing \<Rightarrow> env \<Rightarrow> string \<Rightarrow> world \<Rightarrow> world" where
  "fetchWeather_start L =
     (case L of First \<Rightarrow> fetchWeather1_start | Second \<Rightarrow> fetchWeather2_start)"

definition fetchWeather_resume ::
    "listing \<Rightarrow> env \<Rightarrow> string \<Rightarrow> response \<Rightarrow> world \<Rightarrow> world" where
  "fetchWeather_resume L =
     (case L of First \<Rightarrow> fetchWeather1_resume | Second \<Rightarrow> fetchWeather2_resume)"

section \<open>Handlers and the event loop\<close>

definition handleLocateMe :: "env \<Rightarrow> world \<Rightarrow> world" where
  "handleLocateMe e w =
     (if \<not> geolocation e
      then addToast (now e) ''Geolocation is not supported by your browser.'' Warning w
      else w\<lparr>locating := True\<rparr>)"

definition position_found :: "listing \<Rightarrow> env \<Rightarrow> string \<Rightarrow> string \<Rightarrow> world \<Rightarrow> world" where
  "position_found L e latitude longitude w =
     (let coords = latitude @ '','' @ longitude
      in (fetchWeather_start L e coords (w\<lparr>query := coords\<rparr>))\<lparr>locating := False\<rparr>)"

definition position_error :: "env \<Rightarrow> world \<Rightarrow> world" where
  "position_error e w =
     (addToast (now e) ''Location access denied. Please allow location permissions.'' Warning w)
       \<lparr>locating := False\<rparr>"

definition handleSearch :: "listing \<Rightarrow> env \<Rightarrow> world \<Rightarrow> world" where
  "handleSearch L e w = fetchWeather_start L e (query w) w"

definition mount :: "listing \<Rightarrow> env \<Rightarrow> world \<Rightarrow> world" where
  "mount L e w =
     (let saved = localStorage w ''weather_last_city'';
          initial = or_else saved ''London''
      in fetchWeather_start L e initial (w\<lparr>query := initial\<rparr>))"

text \<open>
  One event is one run of a handler to its end (or to its await): the interface is
  single-threaded, and the state updates of one run are applied together. Typing into the
  search box, submitting, the locate button (disabled while locating) and its two
  callbacks, the closing of a toast (by its button or by its five-second timer), and the
  settling of the pending request at a position.
\<close>

datatype event =
    Change string
  | Submit
  | LocateMe
  | Position string string
  | PositionError
  | Close int
  | Settle nat response

definition handle :: "listing \<Rightarrow> env \<Rightarrow> event \<Rightarrow> world \<Rightarrow> world option" where
  "handle L e ev w =
     (case ev of
        Change v \<Rightarrow> Some (w\<lparr>query := v\<rparr>)
      | Submit \<Rightarrow> Some (handleSearch L e w)
      | LocateMe \<Rightarrow> if locating w then None else Some (handleLocateMe e w)
      | Position latitude longitude \<Rightarrow>
          if locating w then Some (position_found L e latitude longitude w) else None
      | PositionError \<Rightarrow> if locating w then Some (position_error e w) else None
      | Close i \<Rightarrow> Some (removeToast i w)
      | Settle k r \<Rightarrow>
          if k < length (pending w)
          then Some (fetchWeather_resume L e (fst (pending w ! k)) r
                       (w\<lparr>pending := take k (pending w) @ drop (Suc k) (pending w)\<rparr>))
          else None)"

fun run :: "listing \<Rightarrow> (env \<times> event) list \<Rightarrow> world \<Rightarrow> world option" where
  "run L [] w = Some w"
| "run L ((e, ev) # evs) w =
     (case handle L e ev w of None \<Rightarrow> None | Some w' \<Rightarrow> run L evs w')"

definition session ::
    "listing \<Rightarrow> (string \<rightharpoonup> string) \<Rightarrow> env \<Rightarrow> (env \<times> event) list \<Rightarrow> world option" where
  \<comment> \<open>A page load with the stored keys given, then the events in their order.\<close>
  "session L stored e0 evs = run L evs (mount L e0 (initial_world stored))"

section \<open>The proxy endpoint\<close>

text \<open>
  The handler is given \<^verbatim>\<open>req.query.query\<close> and \<^verbatim>\<open>process.env.WEATHER_KEY\<close>
  (each may be undefined) and what the upstream does with a URL: \<^verbatim>\<open>fetch\<close> rejects,
  or \<^verbatim>\<open>response.json()\<close> rejects, or the body parses. The handler passes the parsed
  body on without reading it, so its type is a parameter. The result is the response
  and the URLs the handler fetched.
\<close>

datatype 'j upstream = FetchRejected | JsonRejected | Json 'j

datatype 'j body = Envelope ApiError | Relayed 'j

record 'j res =
  status :: nat
  headers :: "(string \<times> string) list"
  body :: "'j body"

record 'j exchange =
  response :: "'j res"
  fetched :: "string list"

definition error_res :: "nat \<Rightarrow> string \<Rightarrow> string \<Rightarrow> 'j res" where
  \<comment> \<open>\<^verbatim>\<open>res.status(n).json({success: false, error: {code: 0, type, info}})\<close>\<close>
  "error_res n ty text =
     \<lparr>status = n, headers = [],
      body = Envelope \<lparr>code = 0, error_type = ty, info = Some text\<rparr>\<rparr>"

definition handler ::
    "(string \<Rightarrow> 'j upstream) \<Rightarrow> string option \<Rightarrow> string option \<Rightarrow> 'j exchange" where
  "handler upstream WEATHER_KEY req_query =
     (case truthy req_query of
        None \<Rightarrow>
          \<lparr>response = error_res 400 ''bad_request''
             (''Missing '' @ [CHR 0x22] @ ''query'' @ [CHR 0x22] @ '' parameter.''),
           fetched = []\<rparr>
      | Some q \<Rightarrow>
          (case truthy WEATHER_KEY of
             None \<Rightarrow>
               \<lparr>response = error_res 500 ''server_error'' ''API key not configured on server.'',
                fetched = []\<rparr>
           | Some key \<Rightarrow>
               (let url = ''http://api.weatherstack.com/current?access_key='' @ key
                            @ ''&query='' @ encodeURIComponent q
                in case upstream url of
                     Json d \<Rightarrow>
                       \<lparr>response =
                          \<lparr>status = 200,
                           headers = [(''Cache-Control'', ''s-maxage=300, stale-while-revalidate=600'')],
                           body = Relayed d\<rparr>,
                        fetched = [url]\<rparr>
                   | _ \<Rightarrow>
                       \<lparr>response = error_res 502 ''proxy_error'' ''Failed to reach Weatherstack API.'',
                        fetched = [url]\<rparr>)))"

section \<open>Invariant and sample data\<close>

definition cleared :: "world \<Rightarrow> bool" where
  \<comment> \<open>No payload is held while the loading flag is up.\<close>
  "cleared w = (loading w \<longrightarrow> weather w = None)"

definition dev_env :: env where
  "dev_env =
     \<lparr>now = 1000, hostname = ''localhost'', protocol = ''http:'', API_KEY = Some ''k'',
      geolocation = True\<rparr>"

definition deployed_env :: env where
  "deployed_env =
     \<lparr>now = 1000, hostname = ''weather-app.vercel.app'', protocol = ''https:'',
      API_KEY = None, geolocation = True\<rparr>"

definition london :: WeatherData where
  "london =
     \<lparr>request = \<lparr>request_query = ''London, United Kingdom''\<rparr>,
      location =
        \<lparr>name = ''London'', country = ''United Kingdom'',
         region = ''City of London, Greater London'', localtime = ''2024-05-01 12:00'',
         utc_offset = ''1.0''\<rparr>,
      current =
        \<lparr>temperature = 14, weather_descriptions = [''Partly cloudy''], weather_icons = [],
         weather_code = 116, wind_speed = 11, wind_dir = ''SW'', humidity = 72, feelslike = 13,
         uv_index = 4, visibility = 10, pressure = 1012, cloudcover = 50, is_day = ''yes''\<rparr>\<rparr>"

definition showing_london :: world where
  \<comment> \<open>A dashboard at rest that shows London.\<close>
  "showing_london =
     \<lparr>weather = Some london, loading = False, query = ''London'', toasts = [], locating = False,
      localStorage = [''weather_last_city'' \<mapsto> ''London''], pending = []\<rparr>"

section \<open>Evaluation and shared lemmas\<close>

lemmas fetch_defs =
  fetchWeather_start_def fetchWeather1_start_def fetchWeather2_start_def
  fetchWeather_resume_def fetchWeather1_resume_def fetchWeather2_resume_def

lemma trim_Paris: "trim ''Paris'' = ''Paris''"
  by code_simp

lemma trim_London: "trim ''London'' = ''London''"
  by code_simp

lemma trim_blank: "trim [CHR 0x20, CHR 0x09, CHR 0x0A] = []"
  by code_simp

lemma encode_Paris: "encodeURIComponent ''Paris'' = ''Paris''"
  by code_simp

lemma encode_London: "encodeURIComponent ''London'' = ''London''"
  by code_simp

lemma includes_str_sublist: "includes_str s n = sublist n s"
  by (induction s) (auto simp: sublist_Cons_right)

lemma partly_cloudy_is_cloudy:
  assumes "includes_str s ''partly cloudy''"
  shows "includes_str s ''cloudy''"
proof -
  have "sublist ''cloudy'' ''partly cloudy''"
    unfolding includes_str_sublist [symmetric] by code_simp
  then show ?thesis
    using assms unfolding includes_str_sublist by (rule sublist_order.order.trans)
qed

text \<open>No description at all is given either variant of the partly-cloudy theme.\<close>

lemma partly_cloudy_theme_unreachable:
  "getBackgroundGradient d isDay \<noteq> ''from-sky-400 via-blue-400 to-slate-500'' \<and>
   getBackgroundGradient d isDay \<noteq> ''from-indigo-800 via-slate-800 to-gray-900''"
  using partly_cloudy_is_cloudy [of "toLowerCase d"]
  by (simp add: getBackgroundGradient_def Let_def)

lemma resume_api_error:
  "fetchWeather_resume L e q (Parsed (ApiErrorBody err)) w =
     w\<lparr>toasts :=
          toasts w @ [\<lparr>toast_id = now e, message = api_error_message err, toast_type = Error\<rparr>],
       loading := False\<rparr>"
  by (cases L) (simp_all add: fetch_defs addToast_def)

lemma resume_failure:
  assumes "\<forall>d. r \<noteq> Parsed (WeatherBody d)"
  shows "localStorage (fetchWeather_resume L e q r w) = localStorage w"
    and "weather (fetchWeather_resume L e q r w) = weather w"
    and "\<exists>m. toasts (fetchWeather_resume L e q r w)
              = toasts w @ [\<lparr>toast_id = now e, message = m, toast_type = Error\<rparr>]"
  using assms
  by (cases L; auto simp: fetch_defs addToast_def split: response.splits data.splits)+

lemma resume_not_loading: "\<not> loading (fetchWeather_resume L e q r w)"
  by (cases L) (auto simp: fetch_defs addToast_def split: response.splits data.splits)

lemma toast_queue_order:
  "toasts (addToast t m ty w) = toasts w @ [\<lparr>toast_id = t, message = m, toast_type = ty\<rparr>]"
  "subseq (toasts (removeToast i w)) (toasts w)"
  by (simp_all add: addToast_def removeToast_def)

lemma start_storage: "localStorage (fetchWeather_start L e q w) = localStorage w"
  by (cases L) (simp_all add: fetch_defs Let_def addToast_def)

lemma start_weather: "trim q \<noteq> [] \<Longrightarrow> weather (fetchWeather_start L e q w) = None"
  by (cases L) (simp_all add: fetch_defs Let_def addToast_def)

lemma start_cleared: "cleared w \<Longrightarrow> cleared (fetchWeather_start L e q w)"
  by (cases L) (auto simp: fetch_defs cleared_def Let_def addToast_def)

lemma mount_storage: "localStorage (mount L e w) = localStorage w"
  by (simp add: mount_def Let_def start_storage)

lemma mount_cleared: "cleared (mount L e (initial_world stored))"
proof -
  have "cleared ((initial_world stored)\<lparr>query := q\<rparr>)" for q
    by (simp add: cleared_def initial_world_def)
  then show ?thesis
    by (simp add: mount_def Let_def start_cleared)
qed

lemma handle_storage:
  assumes "handle L e ev w = Some w'" and "\<forall>k d. ev \<noteq> Settle k (Parsed (WeatherBody d))"
  shows "localStorage w' = localStorage w"
proof (cases ev)
  case (Settle k r)
  with assms(2) have "\<forall>d. r \<noteq> Parsed (WeatherBody d)"
    by simp
  from resume_failure(1) [OF this] Settle assms(1) show ?thesis
    by (auto simp: handle_def split: if_splits)
qed (use assms(1) in \<open>auto simp: handle_def handleSearch_def start_storage handleLocateMe_def
      position_found_def position_error_def addToast_def removeToast_def Let_def
      split: if_splits\<close>)

lemma handle_cleared:
  assumes "cleared w" and "handle L e ev w = Some w'"
  shows "cleared w'"
proof (cases ev)
  case (Settle k r)
  with assms(2) have "\<not> loading w'"
    by (auto simp: handle_def resume_not_loading split: if_splits)
  then show ?thesis
    by (simp add: cleared_def)
next
  case Submit
  with assms show ?thesis
    by (auto simp: handle_def handleSearch_def start_cleared)
next
  case (Position la lo)
  have "cleared (w\<lparr>query := la @ '','' @ lo\<rparr>)"
    using assms(1) by (simp add: cleared_def)
  from start_cleared [OF this, of L e "la @ '','' @ lo"] Position assms(2) show ?thesis
    by (auto simp: handle_def position_found_def Let_def cleared_def split: if_splits)
qed (use assms in \<open>auto simp: handle_def cleared_def handleLocateMe_def position_error_def
      addToast_def removeToast_def split: if_splits\<close>)

lemma run_cleared: "cleared w \<Longrightarrow> run L evs w = Some w' \<Longrightarrow> cleared w'"
proof (induction evs arbitrary: w)
  case Nil
  then show ?case
    by simp
next
  case (Cons a evs)
  obtain e ev where a: "a = (e, ev)"
    by (cases a)
  with Cons.prems obtain w1
    where h: "handle L e ev w = Some w1" and r: "run L evs w1 = Some w'"
    by (auto split: option.splits)
  from handle_cleared [OF Cons.prems(1) h] r show ?case
    by (rule Cons.IH)
qed

section \<open>Claims\<close>

text \<open>
  C1. When the parsed body has \<^verbatim>\<open>success: false\<close>, \<^verbatim>\<open>fetchWeather\<close> (of either
  listing) appends exactly one toast, of type error, and its message depends on
  \<^verbatim>\<open>error.code\<close>: for 615 the fixed "City not found" text and for 101 the fixed
  "Invalid API key" text, whatever \<^verbatim>\<open>error.info\<close> says; for any other code it is
  \<^verbatim>\<open>error.info\<close> itself when that is there and is not the empty string, and the fixed
  text "An unknown API error occurred." when \<^verbatim>\<open>info\<close> is missing or is the empty
  string.
\<close>

theorem api_error_toast_by_code:
  "toasts (fetchWeather_resume L e q (Parsed (ApiErrorBody err)) w)
     = toasts w @ [\<lparr>toast_id = now e, message = api_error_message err, toast_type = Error\<rparr>]
   \<and> (code err = 615 \<longrightarrow>
        api_error_message err = ''City not found. Please check the name and try again.'')
   \<and> (code err = 101 \<longrightarrow>
        api_error_message err = ''Invalid API key. Please check your .env configuration.'')
   \<and> (code err \<noteq> 615 \<and> code err \<noteq> 101 \<longrightarrow>
        (\<forall>x. info err = Some x \<and> x \<noteq> [] \<longrightarrow> api_error_message err = x)
        \<and> (info err = None \<or> info err = Some [] \<longrightarrow>
             api_error_message err = ''An unknown API error occurred.''))"
  by (auto simp: resume_api_error api_error_message_def or_else_def)

theorem api_error_toast_by_code_witness:
  "map message (toasts (fetchWeather_resume Second dev_env ''Paris''
       (Parsed (ApiErrorBody
          \<lparr>code = 615, error_type = ''request_failed'', info = Some ''Your API request failed.''\<rparr>))
       showing_london))
     = [''City not found. Please check the name and try again.'']
   \<and> map message (toasts (fetchWeather_resume First dev_env ''Paris''
       (Parsed (ApiErrorBody
          \<lparr>code = 101, error_type = ''invalid_access_key'', info = Some ''No valid key.''\<rparr>))
       showing_london))
     = [''Invalid API key. Please check your .env configuration.'']
   \<and> map message (toasts (fetchWeather_resume Second dev_env ''Paris''
       (Parsed (ApiErrorBody
          \<lparr>code = 104, error_type = ''usage_limit_reached'', info = Some ''Limit reached.''\<rparr>))
       showing_london))
     = [''Limit reached.'']
   \<and> map message (toasts (fetchWeather_resume Second dev_env ''Paris''
       (Parsed (ApiErrorBody \<lparr>code = 104, error_type = ''usage_limit_reached'', info = None\<rparr>))
       showing_london))
     = [''An unknown API error occurred.'']"
  using
    api_error_toast_by_code [of Second dev_env "''Paris''"
      "\<lparr>code = 615, error_type = ''request_failed'', info = Some ''Your API request failed.''\<rparr>"
      showing_london]
    api_error_toast_by_code [of First dev_env "''Paris''"
      "\<lparr>code = 101, error_type = ''invalid_access_key'', info = Some ''No valid key.''\<rparr>"
      showing_london]
    api_error_toast_by_code [of Second dev_env "''Paris''"
      "\<lparr>code = 104, error_type = ''usage_limit_reached'', info = Some ''Limit reached.''\<rparr>"
      showing_london]
    api_error_toast_by_code [of Second dev_env "''Paris''"
      "\<lparr>code = 104, error_type = ''usage_limit_reached'', info = None\<rparr>"
      showing_london]
  by (simp add: showing_london_def)

text \<open>
  The claim as it was written promises \<^verbatim>\<open>error.info\<close> verbatim whenever it is present.
  A body whose \<^verbatim>\<open>info\<close> is present and is the empty string gets the fallback text
  instead (\<^verbatim>\<open>err.error.info || '...'\<close>).
\<close>

theorem api_error_empty_info_counterexample:
  "info \<lparr>code = 601, error_type = ''missing_query'', info = Some []\<rparr> = Some []
   \<and> map message (toasts (fetchWeather_resume Second dev_env ''Paris''
       (Parsed (ApiErrorBody \<lparr>code = 601, error_type = ''missing_query'', info = Some []\<rparr>))
       showing_london))
     = [''An unknown API error occurred.'']"
  by (simp add: resume_api_error api_error_message_def or_else_def showing_london_def)

text \<open>
  C2. For every query whose trimmed form is not empty, \<^verbatim>\<open>fetchWeather\<close> of the second
  listing issues one request: to the upstream provider, with the client's key in the URL,
  when the host name is \<^verbatim>\<open>localhost\<close> or \<^verbatim>\<open>127.0.0.1\<close>, and to
  \<^verbatim>\<open>/api/weather\<close>, with no key in the URL, on any other host. \<^verbatim>\<open>fetchWeather\<close> of
  the first listing has no proxy path: it issues its request to the upstream provider
  with the client's key on every host.
\<close>

theorem endpoint_selection:
  "trim q \<noteq> [] \<Longrightarrow>
   pending (fetchWeather_start Second e q w)
     = pending w @
       [(q, if hostname e = ''localhost'' \<or> hostname e = ''127.0.0.1''
            then ''http://api.weatherstack.com/current?access_key='' @ template (API_KEY e)
                   @ ''&query='' @ encodeURIComponent q
            else ''/api/weather?query='' @ encodeURIComponent q)]
   \<and> pending (fetchWeather_start First e q w)
     = pending w @
       [(q, ''http://api.weatherstack.com/current?access_key='' @ template (API_KEY e)
              @ ''&query='' @ encodeURIComponent q)]"
  by (simp add: fetch_defs Let_def upstream_url_def proxy_url_def addToast_def)

theorem endpoint_selection_witness:
  "trim ''Paris'' \<noteq> []
   \<and> pending (fetchWeather_start Second dev_env ''Paris'' showing_london)
     = [(''Paris'', ''http://api.weatherstack.com/current?access_key=k&query=Paris'')]
   \<and> pending (fetchWeather_start Second (dev_env\<lparr>hostname := ''127.0.0.1''\<rparr>) ''Paris''
        showing_london)
     = [(''Paris'', ''http://api.weatherstack.com/current?access_key=k&query=Paris'')]
   \<and> pending (fetchWeather_start Second deployed_env ''Paris'' showing_london)
     = [(''Paris'', ''/api/weather?query=Paris'')]
   \<and> pending (fetchWeather_start First dev_env ''Paris'' showing_london)
     = [(''Paris'', ''http://api.weatherstack.com/current?access_key=k&query=Paris'')]"
proof -
  have t: "trim ''Paris'' \<noteq> []"
    by (simp add: trim_Paris)
  show ?thesis
    using t
      endpoint_selection [OF t, of dev_env showing_london]
      endpoint_selection [OF t, of "dev_env\<lparr>hostname := ''127.0.0.1''\<rparr>" showing_london]
      endpoint_selection [OF t, of deployed_env showing_london]
    by (simp add: dev_env_def deployed_env_def showing_london_def encode_Paris template_def)
qed

text \<open>
  The claim as it was written sends every fetch on a host other than the loopback ones to
  the proxy. The first listing's \<^verbatim>\<open>fetchWeather\<close>, on a deployed host, calls the
  upstream provider.
\<close>

theorem first_listing_direct_counterexample:
  "trim ''Paris'' = ''Paris''
   \<and> hostname (deployed_env\<lparr>API_KEY := Some ''k''\<rparr>) = ''weather-app.vercel.app''
   \<and> map snd (pending (fetchWeather_start First (deployed_env\<lparr>API_KEY := Some ''k''\<rparr>)
        ''Paris'' showing_london))
     = [''http://api.weatherstack.com/current?access_key=k&query=Paris'']"
  by (simp add: fetch_defs Let_def upstream_url_def addToast_def deployed_env_def
      showing_london_def trim_Paris encode_Paris template_def)

text \<open>
  C3. The claim: a description whose lower-cased form contains "partly cloudy", and none
  of the words tested before, gets the day or the night variant of the partly-cloudy
  theme. \<^verbatim>\<open>getBackgroundGradient\<close> tests "cloudy" one branch earlier, and "partly
  cloudy" contains it: the description "Partly cloudy" gets the overcast theme by day and
  by night, and \<open>partly_cloudy_theme_unreachable\<close> shows that no description gets the
  partly-cloudy theme.
\<close>

theorem partly_cloudy_gets_overcast_theme:
  "includes_str (toLowerCase ''Partly cloudy'') ''partly cloudy''
   \<and> getBackgroundGradient ''Partly cloudy'' True = ''from-slate-700 via-gray-700 to-slate-900''
   \<and> getBackgroundGradient ''Partly cloudy'' False = ''from-slate-700 via-gray-700 to-slate-900''"
  by code_simp


text \<open>
  C4. The proxy handler answers 400 with the \<^verbatim>\<open>bad_request\<close> body exactly when the
  query parameter is missing (undefined or the empty string: what \<^verbatim>\<open>!query\<close>
  accepts); 500 with the \<^verbatim>\<open>server_error\<close> body exactly when the query is there and
  the server's key is not configured (undefined or empty); and 502 with the
  \<^verbatim>\<open>proxy_error\<close> body exactly when query and key are there and the upstream request
  fails: \<^verbatim>\<open>fetch\<close> rejects, or the upstream's body does not parse as JSON. In all
  three bodies \<^verbatim>\<open>success\<close> is false and \<^verbatim>\<open>code\<close> is 0 (\<open>error_res\<close>).
\<close>

theorem proxy_error_statuses:
  "(status (response (handler up key rq)) = 400 \<longleftrightarrow> rq = None \<or> rq = Some [])
   \<and> (response (handler up key rq)
        = \<lparr>status = 400, headers = [],
           body = Envelope
             \<lparr>code = 0, error_type = ''bad_request'',
              info = Some (''Missing '' @ [CHR 0x22] @ ''query'' @ [CHR 0x22] @ '' parameter.'')\<rparr>\<rparr>
        \<longleftrightarrow> rq = None \<or> rq = Some [])
   \<and> (status (response (handler up key rq)) = 500
        \<longleftrightarrow> (\<exists>q. rq = Some q \<and> q \<noteq> []) \<and> (key = None \<or> key = Some []))
   \<and> (response (handler up key rq)
        = \<lparr>status = 500, headers = [],
           body = Envelope
             \<lparr>code = 0, error_type = ''server_error'',
              info = Some ''API key not configured on server.''\<rparr>\<rparr>
        \<longleftrightarrow> (\<exists>q. rq = Some q \<and> q \<noteq> []) \<and> (key = None \<or> key = Some []))
   \<and> (status (response (handler up key rq)) = 502
        \<longleftrightarrow> (\<exists>q k. rq = Some q \<and> q \<noteq> [] \<and> key = Some k \<and> k \<noteq> [] \<and>
                   up (''http://api.weatherstack.com/current?access_key='' @ k
                        @ ''&query='' @ encodeURIComponent q) \<in> {FetchRejected, JsonRejected}))
   \<and> (response (handler up key rq)
        = \<lparr>status = 502, headers = [],
           body = Envelope
             \<lparr>code = 0, error_type = ''proxy_error'',
              info = Some ''Failed to reach Weatherstack API.''\<rparr>\<rparr>
        \<longleftrightarrow> (\<exists>q k. rq = Some q \<and> q \<noteq> [] \<and> key = Some k \<and> k \<noteq> [] \<and>
                   up (''http://api.weatherstack.com/current?access_key='' @ k
                        @ ''&query='' @ encodeURIComponent q) \<in> {FetchRejected, JsonRejected}))"
  by (auto simp: handler_def truthy_def error_res_def Let_def
      split: option.splits upstream.splits if_splits)

text \<open>
  The claim as it was written gives 502 exactly when the upstream request fails in
  transport. Here \<^verbatim>\<open>fetch\<close> reaches the upstream and gets a response, whose body is
  not JSON: the handler answers 502, \<^verbatim>\<open>proxy_error\<close>.
\<close>

theorem proxy_unparsable_body_counterexample:
  "response (handler (\<lambda>url. JsonRejected :: data upstream) (Some ''k'') (Some ''Paris''))
     = \<lparr>status = 502, headers = [],
        body = Envelope
          \<lparr>code = 0, error_type = ''proxy_error'',
           info = Some ''Failed to reach Weatherstack API.''\<rparr>\<rparr>
   \<and> fetched (handler (\<lambda>url. JsonRejected :: data upstream) (Some ''k'') (Some ''Paris''))
     = [''http://api.weatherstack.com/current?access_key=k&query=Paris'']"
  by (simp add: handler_def truthy_def error_res_def Let_def encode_Paris)

text \<open>
  C5. For every integer \<^verbatim>\<open>uv\<close>, \<^verbatim>\<open>getUvLabel\<close> (of either listing) gives the label
  "Low" iff \<open>uv \<le> 2\<close>, "Moderate" iff \<open>2 < uv \<le> 5\<close>, "High" iff \<open>5 < uv \<le> 7\<close>,
  "Very High" iff \<open>7 < uv \<le> 10\<close> and "Extreme" iff \<open>uv > 10\<close>; in particular 2 is
  "Low", 3 "Moderate", 7 "High", 8 "Very High" and 11 "Extreme".
\<close>

theorem getUvLabel_thresholds:
  "(label (getUvLabel L uv) = ''Low'' \<longleftrightarrow> uv \<le> 2)
   \<and> (label (getUvLabel L uv) = ''Moderate'' \<longleftrightarrow> 2 < uv \<and> uv \<le> 5)
   \<and> (label (getUvLabel L uv) = ''High'' \<longleftrightarrow> 5 < uv \<and> uv \<le> 7)
   \<and> (label (getUvLabel L uv) = ''Very High'' \<longleftrightarrow> 7 < uv \<and> uv \<le> 10)
   \<and> (label (getUvLabel L uv) = ''Extreme'' \<longleftrightarrow> 10 < uv)
   \<and> label (getUvLabel L 2) = ''Low'' \<and> label (getUvLabel L 3) = ''Moderate''
   \<and> label (getUvLabel L 7) = ''High'' \<and> label (getUvLabel L 8) = ''Very High''
   \<and> label (getUvLabel L 11) = ''Extreme''"
  by (cases L) (simp_all add: getUvLabel_def getUvLabel1_def getUvLabel2_def)

text \<open>
  C6. A call of \<^verbatim>\<open>fetchWeather\<close> with a query whose trimmed form is not empty sets
  the payload to absent and raises the loading flag in the same step in which it issues
  its request, which is then still pending; and in every state that a session reaches
  (a page load, then any events), a raised loading flag comes with an absent payload.
\<close>

theorem payload_cleared_while_loading:
  "(trim q \<noteq> [] \<longrightarrow>
      weather (fetchWeather_start L e q w) = None \<and> loading (fetchWeather_start L e q w)
      \<and> (\<exists>url. pending (fetchWeather_start L e q w) = pending w @ [(q, url)]))
   \<and> (session L stored e0 evs = Some w' \<longrightarrow> loading w' \<longrightarrow> weather w' = None)"
proof (intro conjI impI)
  assume "session L stored e0 evs = Some w'" "loading w'"
  with run_cleared [OF mount_cleared] show "weather w' = None"
    by (auto simp: session_def cleared_def)
qed (cases L; simp add: fetch_defs Let_def addToast_def)+

lemma session_London_then_Paris:
  "session Second Map.empty dev_env
     [(dev_env, Settle 0 (Parsed (WeatherBody london))), (dev_env, Change ''Paris''),
      (dev_env, Submit)]
   = Some
       \<lparr>weather = None, loading = True, query = ''Paris'', toasts = [], locating = False,
        localStorage = [''weather_last_city'' \<mapsto> ''London''],
        pending = [(''Paris'', ''http://api.weatherstack.com/current?access_key=k&query=Paris'')]\<rparr>"
  by (simp add: session_def mount_def initial_world_def or_else_def Let_def fetch_defs
      handle_def handleSearch_def dev_env_def trim_London trim_Paris encode_Paris encode_London
      upstream_url_def template_def)

theorem payload_cleared_while_loading_witness:
  "trim ''Paris'' \<noteq> []
   \<and> weather showing_london = Some london
   \<and> weather (fetchWeather_start Second dev_env ''Paris'' showing_london) = None
   \<and> loading (fetchWeather_start Second dev_env ''Paris'' showing_london)
   \<and> map_option loading
       (session Second Map.empty dev_env
          [(dev_env, Settle 0 (Parsed (WeatherBody london))), (dev_env, Change ''Paris''),
           (dev_env, Submit)])
     = Some True
   \<and> map_option weather
       (session Second Map.empty dev_env
          [(dev_env, Settle 0 (Parsed (WeatherBody london))), (dev_env, Change ''Paris''),
           (dev_env, Submit)])
     = Some None"
  using
    payload_cleared_while_loading [of "''Paris''" Second dev_env showing_london Map.empty dev_env
      "[(dev_env, Settle 0 (Parsed (WeatherBody london))), (dev_env, Change ''Paris''),
        (dev_env, Submit)]"
      "\<lparr>weather = None, loading = True, query = ''Paris'', toasts = [], locating = False,
        localStorage = [''weather_last_city'' \<mapsto> ''London''],
        pending = [(''Paris'', ''http://api.weatherstack.com/current?access_key=k&query=Paris'')]\<rparr>"]
  by (simp add: session_London_then_Paris trim_Paris showing_london_def)


text \<open>
  C7. \<^verbatim>\<open>fetchWeather\<close> (of either listing) writes the key \<^verbatim>\<open>weather_last_city\<close>,
  with the trimmed query as its value, when the parsed body is a weather payload, and
  only then. On any other outcome (a body with \<^verbatim>\<open>success: false\<close>, or an exception
  from the request) it leaves \<^verbatim>\<open>localStorage\<close> and the payload as they are and
  appends one toast of type error; the payload that the start of the fetch cleared is
  still absent after it. The start of a fetch and the page load write no key, and no
  event other than the settling of a request with a weather payload does.
\<close>

theorem last_city_written_on_success_only:
  "localStorage (fetchWeather_resume L e q (Parsed (WeatherBody d)) w)
     = (localStorage w)(''weather_last_city'' \<mapsto> trim q)
   \<and> ((\<forall>d. r \<noteq> Parsed (WeatherBody d)) \<longrightarrow>
         localStorage (fetchWeather_resume L e q r w) = localStorage w
         \<and> weather (fetchWeather_resume L e q r w) = weather w
         \<and> (\<exists>m. toasts (fetchWeather_resume L e q r w)
                  = toasts w @ [\<lparr>toast_id = now e, message = m, toast_type = Error\<rparr>])
         \<and> (trim q \<noteq> [] \<longrightarrow>
              weather (fetchWeather_resume L e q r (fetchWeather_start L e1 q w)) = None))
   \<and> localStorage (fetchWeather_start L e q w) = localStorage w
   \<and> localStorage (mount L e w) = localStorage w
   \<and> (handle L e ev w = Some w' \<and> (\<forall>k d. ev \<noteq> Settle k (Parsed (WeatherBody d)))
        \<longrightarrow> localStorage w' = localStorage w)"
proof (intro conjI impI)
  show "localStorage (fetchWeather_resume L e q (Parsed (WeatherBody d)) w)
          = (localStorage w)(''weather_last_city'' \<mapsto> trim q)"
    by (cases L) (simp_all add: fetch_defs)
next
  assume "handle L e ev w = Some w' \<and> (\<forall>k d. ev \<noteq> Settle k (Parsed (WeatherBody d)))"
  then show "localStorage w' = localStorage w"
    using handle_storage by blast
qed (simp_all add: resume_failure start_storage start_weather mount_storage)

lemma failed_fetch_of_Paris:
  "fetchWeather_resume Second dev_env ''Paris'' (Thrown (JsError True ''Failed to fetch''))
     (fetchWeather_start Second dev_env ''Paris'' showing_london)
   = \<lparr>weather = None, loading = False, query = ''London'',
      toasts = [\<lparr>toast_id = 1000, message = ''Failed to fetch weather data. Please try again.'',
                 toast_type = Error\<rparr>],
      locating = False, localStorage = [''weather_last_city'' \<mapsto> ''London''],
      pending = [(''Paris'', ''http://api.weatherstack.com/current?access_key=k&query=Paris'')]\<rparr>"
  by (simp add: fetch_defs Let_def addToast_def showing_london_def dev_env_def trim_Paris
      encode_Paris upstream_url_def template_def fetch_failed_message_def)

theorem last_city_written_on_success_only_witness:
  "trim ''Paris'' \<noteq> []
   \<and> localStorage (fetchWeather_resume Second dev_env ''Paris'' (Parsed (WeatherBody london))
        (fetchWeather_start Second dev_env ''Paris'' showing_london)) ''weather_last_city''
     = Some ''Paris''
   \<and> localStorage (fetchWeather_resume Second dev_env ''Paris''
        (Thrown (JsError True ''Failed to fetch''))
        (fetchWeather_start Second dev_env ''Paris'' showing_london)) ''weather_last_city''
     = Some ''London''
   \<and> weather (fetchWeather_resume Second dev_env ''Paris''
        (Thrown (JsError True ''Failed to fetch''))
        (fetchWeather_start Second dev_env ''Paris'' showing_london))
     = None
   \<and> map message (toasts (fetchWeather_resume Second dev_env ''Paris''
        (Thrown (JsError True ''Failed to fetch''))
        (fetchWeather_start Second dev_env ''Paris'' showing_london)))
     = [''Failed to fetch weather data. Please try again.'']
   \<and> handle Second dev_env (Close 7) showing_london = Some showing_london
   \<and> (\<forall>k d. Close 7 \<noteq> Settle k (Parsed (WeatherBody d)))"
proof -
  let ?r = "Thrown (JsError True ''Failed to fetch'')"
  let ?s = "fetchWeather_start Second dev_env ''Paris'' showing_london"
  have t: "trim ''Paris'' \<noteq> []"
    by (simp add: trim_Paris)
  have f: "\<forall>d. ?r \<noteq> Parsed (WeatherBody d)"
    by simp
  have h: "handle Second dev_env (Close 7) showing_london = Some showing_london"
    by (simp add: handle_def removeToast_def showing_london_def)
  have c: "\<forall>k d. Close 7 \<noteq> Settle k (Parsed (WeatherBody d))"
    by simp
  note after_start =
    last_city_written_on_success_only [where L = Second and e = dev_env and q = "''Paris''"
      and d = london and w = ?s and r = ?r and ?e1.0 = dev_env and ev = "Close 7"
      and w' = showing_london]
  note from_rest =
    last_city_written_on_success_only [where L = Second and e = dev_env and q = "''Paris''"
      and d = london and w = showing_london and r = ?r and ?e1.0 = dev_env and ev = "Close 7"
      and w' = showing_london]
  from after_start have 1:
    "localStorage (fetchWeather_resume Second dev_env ''Paris'' (Parsed (WeatherBody london)) ?s)
       ''weather_last_city'' = Some ''Paris''"
    by (simp add: trim_Paris)
  from after_start f have
    "localStorage (fetchWeather_resume Second dev_env ''Paris'' ?r ?s) = localStorage ?s"
    by blast
  then have 2:
    "localStorage (fetchWeather_resume Second dev_env ''Paris'' ?r ?s) ''weather_last_city''
       = Some ''London''"
    by (simp add: start_storage showing_london_def)
  from from_rest f t have 3:
    "weather (fetchWeather_resume Second dev_env ''Paris'' ?r ?s) = None"
    by blast
  have 4:
    "map message (toasts (fetchWeather_resume Second dev_env ''Paris'' ?r ?s))
       = [''Failed to fetch weather data. Please try again.'']"
    by (simp add: failed_fetch_of_Paris)
  from t 1 2 3 4 h c show ?thesis
    by blast
qed

text \<open>
  C8. For every query whose trimmed form is empty, \<^verbatim>\<open>fetchWeather\<close> (of either
  listing) issues no request and changes nothing: the loading flag, the payload, the
  toasts, the stored keys and the pending requests are as they were.
\<close>

theorem blank_query_changes_nothing:
  "trim q = [] \<Longrightarrow> fetchWeather_start L e q w = w"
  by (cases L) (simp_all add: fetch_defs)

theorem blank_query_changes_nothing_witness:
  "trim [CHR 0x20, CHR 0x09, CHR 0x0A] = []
   \<and> (\<forall>L e w. fetchWeather_start L e [CHR 0x20, CHR 0x09, CHR 0x0A] w = w)"
  using blank_query_changes_nothing [OF trim_blank] trim_blank
  by simp

text \<open>
  C9. The claim: in every reachable state the toasts stand oldest first, and the ids of
  two toasts in the queue differ and grow from one insertion to the next. The queue is
  kept in insertion order (\<open>toast_queue_order\<close>), but an id is the reading of
  \<^verbatim>\<open>Date.now()\<close> at the insertion, and two insertions within one millisecond get
  one id. In the first listing, on a page served over https, the page load enqueues the
  mixed-content warning, and the rejection of the blocked request enqueues the error
  toast: with both at the clock reading 1000 the queue holds the id 1000 twice, and
  closing one of the two toasts removes both. In the second listing, two requests that
  fail within one millisecond do the same.
\<close>

theorem toast_ids_collide:
  "map_option (\<lambda>w. map toast_id (toasts w))
     (session First Map.empty deployed_env
        [(deployed_env, Settle 0 (Thrown (JsError True ''Failed to fetch'')))])
     = Some [1000, 1000]
   \<and> map_option (\<lambda>w. map toast_type (toasts w))
     (session First Map.empty deployed_env
        [(deployed_env, Settle 0 (Thrown (JsError True ''Failed to fetch'')))])
     = Some [Warning, Error]
   \<and> map_option toasts
     (session First Map.empty deployed_env
        [(deployed_env, Settle 0 (Thrown (JsError True ''Failed to fetch''))),
         (deployed_env, Close 1000)])
     = Some []
   \<and> map_option (\<lambda>w. map toast_id (toasts w))
     (session Second Map.empty dev_env
        [(dev_env, Submit),
         (dev_env, Settle 0 (Thrown (JsError True ''Failed to fetch''))),
         (dev_env, Settle 0 (Thrown (JsError True ''Failed to fetch'')))])
     = Some [1000, 1000]"
  by (simp add: session_def mount_def initial_world_def or_else_def Let_def fetch_defs
      handle_def handleSearch_def deployed_env_def dev_env_def trim_London addToast_def
      removeToast_def)

text \<open>
  C10. When the query parameter is there and the server's key is configured (each a
  string that is not empty, which is what the handler's tests \<^verbatim>\<open>!query\<close> and
  \<^verbatim>\<open>!API_KEY\<close> let through), the handler sends one request to the upstream, with the
  key and the encoded query in the URL; and when that request succeeds and its body
  parses, the handler answers 200 with that body as it is and the header
  \<^verbatim>\<open>Cache-Control: s-maxage=300, stale-while-revalidate=600\<close>. The handler is
  defined for a body of any type, so it cannot read it: a body with
  \<^verbatim>\<open>success: false\<close> is passed on with status 200 like any other.
\<close>

theorem proxy_relays_upstream_body:
  "q \<noteq> [] \<Longrightarrow> k \<noteq> [] \<Longrightarrow>
   up (''http://api.weatherstack.com/current?access_key='' @ k
         @ ''&query='' @ encodeURIComponent q) = Json d \<Longrightarrow>
   handler up (Some k) (Some q)
     = \<lparr>response =
          \<lparr>status = 200,
           headers = [(''Cache-Control'', ''s-maxage=300, stale-while-revalidate=600'')],
           body = Relayed d\<rparr>,
        fetched =
          [''http://api.weatherstack.com/current?access_key='' @ k
             @ ''&query='' @ encodeURIComponent q]\<rparr>"
  by (simp add: handler_def truthy_def Let_def)

theorem proxy_relays_upstream_body_witness:
  "''Paris'' \<noteq> [] \<and> ''k'' \<noteq> []
   \<and> handler (\<lambda>url. Json (ApiErrorBody
         \<lparr>code = 615, error_type = ''request_failed'', info = Some ''Your API request failed.''\<rparr>))
       (Some ''k'') (Some ''Paris'')
     = \<lparr>response =
          \<lparr>status = 200,
           headers = [(''Cache-Control'', ''s-maxage=300, stale-while-revalidate=600'')],
           body = Relayed (ApiErrorBody
             \<lparr>code = 615, error_type = ''request_failed'',
              info = Some ''Your API request failed.''\<rparr>)\<rparr>,
        fetched = [''http://api.weatherstack.com/current?access_key=k&query=Paris'']\<rparr>"
  using
    proxy_relays_upstream_body [of "''Paris''" "''k''"
      "\<lambda>url. Json (ApiErrorBody
         \<lparr>code = 615, error_type = ''request_failed'', info = Some ''Your API request failed.''\<rparr>)"
      "ApiErrorBody
         \<lparr>code = 615, error_type = ''request_failed'', info = Some ''Your API request failed.''\<rparr>"]
  by (simp add: encode_Paris)

end
